theory Spec2Isabelle
  imports Main "HOL-Library.Word"
begin

unbundle bit_operations_syntax

section \<open>Dynamic values of the rule engine\<close>

text \<open>
  The engine of \<^verbatim>\<open>ruler.go\<close> works on Go values of type \<^verbatim>\<open>interface{}\<close>. A value is
  modelled by its dynamic type together with its payload. \<open>VNil\<close> is the nil interface,
  which \<^verbatim>\<open>pluck\<close> also returns for "not found". Go's \<^verbatim>\<open>int\<close> and \<^verbatim>\<open>uint\<close> are taken at
  64 bits; they remain types of their own, distinct from \<^verbatim>\<open>int64\<close> and \<^verbatim>\<open>uint64\<close>.
  Floating-point values are kept as their IEEE 754 bit patterns. A
  \<^verbatim>\<open>map[string]interface{}\<close> is an association list read with \<open>map_of\<close>, and
  \<^verbatim>\<open>[]interface{}\<close> is a list.
\<close>

datatype "value" =
    VNil
  | VBool bool
  | VInt8 "8 word"
  | VInt16 "16 word"
  | VInt32 "32 word"
  | VInt64 "64 word"
  | VInt "64 word"
  | VUint8 "8 word"
  | VUint16 "16 word"
  | VUint32 "32 word"
  | VUint64 "64 word"
  | VUint "64 word"
  | VFloat32 "32 word"
  | VFloat64 "64 word"
  | VString string
  | VMap "(string \<times> value) list"
  | VSlice "value list"

type_synonym object = "(string \<times> value) list"

datatype gotype =
    TBool | TInt8 | TInt16 | TInt32 | TInt64 | TInt
  | TUint8 | TUint16 | TUint32 | TUint64 | TUint
  | TFloat32 | TFloat64 | TString | TMap | TSlice

text \<open>\<^verbatim>\<open>reflect.TypeOf\<close>: the nil interface has no type (\<open>None\<close>).\<close>

fun TypeOf :: "value \<Rightarrow> gotype option" where
  "TypeOf VNil = None"
| "TypeOf (VBool _) = Some TBool"
| "TypeOf (VInt8 _) = Some TInt8"
| "TypeOf (VInt16 _) = Some TInt16"
| "TypeOf (VInt32 _) = Some TInt32"
| "TypeOf (VInt64 _) = Some TInt64"
| "TypeOf (VInt _) = Some TInt"
| "TypeOf (VUint8 _) = Some TUint8"
| "TypeOf (VUint16 _) = Some TUint16"
| "TypeOf (VUint32 _) = Some TUint32"
| "TypeOf (VUint64 _) = Some TUint64"
| "TypeOf (VUint _) = Some TUint"
| "TypeOf (VFloat32 _) = Some TFloat32"
| "TypeOf (VFloat64 _) = Some TFloat64"
| "TypeOf (VString _) = Some TString"
| "TypeOf (VMap _) = Some TMap"
| "TypeOf (VSlice _) = Some TSlice"

text \<open>The method \<^verbatim>\<open>String()\<close> of a \<^verbatim>\<open>reflect.Type\<close>.\<close>

fun type_String :: "gotype \<Rightarrow> string" where
  "type_String TBool = ''bool''"
| "type_String TInt8 = ''int8''"
| "type_String TInt16 = ''int16''"
| "type_String TInt32 = ''int32''"
| "type_String TInt64 = ''int64''"
| "type_String TInt = ''int''"
| "type_String TUint8 = ''uint8''"
| "type_String TUint16 = ''uint16''"
| "type_String TUint32 = ''uint32''"
| "type_String TUint64 = ''uint64''"
| "type_String TUint = ''uint''"
| "type_String TFloat32 = ''float32''"
| "type_String TFloat64 = ''float64''"
| "type_String TString = ''string''"
| "type_String TMap = ''map[string]interface {}''"
| "type_String TSlice = ''[]interface {}''"

text \<open>The method \<^verbatim>\<open>Comparable()\<close>: maps and slices are the types that \<^verbatim>\<open>==\<close> rejects.\<close>

fun type_Comparable :: "gotype \<Rightarrow> bool" where
  "type_Comparable TMap = False"
| "type_Comparable TSlice = False"
| "type_Comparable _ = True"

subsection \<open>Outcomes\<close>

text \<open>
  A Go call either returns or panics. The functions of the engine that return
  \<^verbatim>\<open>(bool, error)\<close> return a pair of a boolean and an optional error.
\<close>

datatype 'a outcome = Returns 'a | Panics

text \<open>
  The errors the engine creates, one constructor per message:
  \<^item> \<open>MissingProperty p\<close>: \<^verbatim>\<open>did not find property (p) on map\<close>
  \<^item> \<open>UnknownComparator\<close>: \<^verbatim>\<open>unknown comparator %s\<close>
  \<^item> \<open>TypeMismatch\<close>: \<^verbatim>\<open>Value types are mismatched, cannot compare values\<close>
  \<^item> \<open>UnsupportedType\<close>: \<^verbatim>\<open>Invalid type for inequality comparison\<close>
  \<^item> \<open>ExpectedNotString\<close>: \<^verbatim>\<open>expected value not actually a string, bailing\<close>
  \<^item> \<open>ActualNotString\<close>: \<^verbatim>\<open>actual value not actually a string, bailing\<close>
  \<^item> \<open>InvalidPattern\<close>: \<^verbatim>\<open>regexp is bad, bailing\<close>
\<close>

datatype error =
    MissingProperty string
  | UnknownComparator
  | TypeMismatch
  | UnsupportedType
  | ExpectedNotString
  | ActualNotString
  | InvalidPattern

type_synonym result = "(bool \<times> error option) outcome"

subsection \<open>IEEE 754 comparison on bit patterns\<close>

text \<open>
  Go compares floating-point numbers by IEEE 754: a NaN is unordered and unequal to
  everything, itself included; the two zeros are equal; all other values are ordered
  as their sign-magnitude bit patterns are.
\<close>

definition f64_isNaN :: "64 word \<Rightarrow> bool" where
  "f64_isNaN w = (0x7FF0000000000000 < (w AND 0x7FFFFFFFFFFFFFFF))"

definition f64_key :: "64 word \<Rightarrow> int" where
  "f64_key w = (if bit w 63 then - uint (w AND 0x7FFFFFFFFFFFFFFF)
                else uint (w AND 0x7FFFFFFFFFFFFFFF))"

definition f64_lt :: "64 word \<Rightarrow> 64 word \<Rightarrow> bool" where
  "f64_lt a b = (\<not> f64_isNaN a \<and> \<not> f64_isNaN b \<and> f64_key a < f64_key b)"

definition f64_le :: "64 word \<Rightarrow> 64 word \<Rightarrow> bool" where
  "f64_le a b = (\<not> f64_isNaN a \<and> \<not> f64_isNaN b \<and> f64_key a \<le> f64_key b)"

definition f64_eq :: "64 word \<Rightarrow> 64 word \<Rightarrow> bool" where
  "f64_eq a b = (\<not> f64_isNaN a \<and> \<not> f64_isNaN b \<and> f64_key a = f64_key b)"

definition f32_isNaN :: "32 word \<Rightarrow> bool" where
  "f32_isNaN w = (0x7F800000 < (w AND 0x7FFFFFFF))"

definition f32_key :: "32 word \<Rightarrow> int" where
  "f32_key w = (if bit w 31 then - uint (w AND 0x7FFFFFFF) else uint (w AND 0x7FFFFFFF))"

definition f32_eq :: "32 word \<Rightarrow> 32 word \<Rightarrow> bool" where
  "f32_eq a b = (\<not> f32_isNaN a \<and> \<not> f32_isNaN b \<and> f32_key a = f32_key b)"

subsection \<open>Library functions the engine calls\<close>

text \<open>
  \<^verbatim>\<open>strconv.ParseFloat(s, 64)\<close> and \<^verbatim>\<open>regexp.Compile\<close> with \<^verbatim>\<open>MatchString\<close> belong to
  Go's standard library. The engine is modelled over any such pair of functions:
  \<open>ParseFloat s\<close> is \<open>None\<close> when the library returns an error and the parsed number
  otherwise; \<open>Compile p\<close> is \<open>None\<close> when the pattern does not compile and the
  compiled pattern's \<^verbatim>\<open>MatchString\<close> otherwise.
\<close>

record stdlib =
  ParseFloat :: "string \<Rightarrow> 64 word option"
  Compile :: "string \<Rightarrow> (string \<Rightarrow> bool) option"

text \<open>
  \<^verbatim>\<open>strings.Split(s, ".")\<close>, for a separator of one character: the pieces between the
  separators, in order; a string without separator is its only piece.
\<close>

fun Split :: "string \<Rightarrow> char \<Rightarrow> string list" where
  "Split [] sep = [[]]"
| "Split (c # cs) sep =
     (if c = sep then [] # Split cs sep
      else (case Split cs sep of [] \<Rightarrow> [[c]] | p # ps \<Rightarrow> (c # p) # ps))"

section \<open>Path resolution: \<^verbatim>\<open>pluck\<close>\<close>

text \<open>Indexing a Go map: the zero value, here the nil interface, for a missing key.\<close>

definition map_index :: "object \<Rightarrow> string \<Rightarrow> value" where
  "map_index m k = (case map_of m k of None \<Rightarrow> VNil | Some v \<Rightarrow> v)"

text \<open>The type assertion \<^verbatim>\<open>v.(map[string]interface{})\<close> in its two-result form.\<close>

fun as_map :: "value \<Rightarrow> object option" where
  "as_map (VMap m) = Some m"
| "as_map _ = None"

text \<open>
  The loop \<^verbatim>\<open>for i := 1; i < len(parts)-1; i++\<close> of \<^verbatim>\<open>pluck\<close>, started at \<open>i\<close> with the
  current \<^verbatim>\<open>prev\<close>. \<open>None\<close> is one of the loop's two \<^verbatim>\<open>return nil\<close>; \<open>Some prev\<close> is
  the mapping the loop ends with.
\<close>

function pluck_loop :: "string list \<Rightarrow> nat \<Rightarrow> object \<Rightarrow> object option" where
  "pluck_loop parts i prev =
     (if i < length parts - 1 then
        (let cp = parts ! i in
         if map_index prev cp = VNil then None
         else (case as_map (map_index prev cp) of
                 None \<Rightarrow> None
               | Some m \<Rightarrow> pluck_loop parts (i + 1) m))
      else Some prev)"
  by pat_completeness auto
termination
  by (relation "measure (\<lambda>(parts, i, prev). length parts - 1 - i)") auto

declare pluck_loop.simps [simp del]

definition pluck :: "object \<Rightarrow> string \<Rightarrow> value" where
  "pluck obj path =
     (let parts = Split path (CHR ''.'') in
      if length parts = 1 \<and> map_index obj (parts ! 0) \<noteq> VNil then
        map_index obj (parts ! 0)
      else if length parts > 1 \<and> map_index obj (parts ! 0) \<noteq> VNil then
        (case as_map (map_index obj (parts ! 0)) of
           None \<Rightarrow> VNil
         | Some prev0 \<Rightarrow>
             (case pluck_loop parts 1 prev0 of
                None \<Rightarrow> VNil
              | Some prev \<Rightarrow>
                  if map_index prev (parts ! (length parts - 1)) \<noteq> VNil
                  then map_index prev (parts ! (length parts - 1))
                  else VNil))
      else VNil)"

section \<open>The inequality engine\<close>

text \<open>
  The comparator numbers of the source, of which the inequality functions receive
  \<open>gt\<close>, \<open>gte\<close>, \<open>lt\<close> and \<open>lte\<close>. The source counts with \<^verbatim>\<open>iota\<close>:
  eq 0, neq 1, gt 2, gte 3, lt 4, lte 5, exists 6, nexists 7, regex 8, matches 9,
  contains 10, ncontains 11.
\<close>

definition gt :: int where "gt = 2"
definition gte :: int where "gte = 3"
definition lt :: int where "lt = 4"
definition lte :: int where "lte = 5"

text \<open>
  The type assertions \<^verbatim>\<open>v.(uint64)\<close>, \<^verbatim>\<open>v.(int64)\<close>, \<^verbatim>\<open>v.(float64)\<close> and \<^verbatim>\<open>v.(string)\<close>.
  They hold for a value of exactly that dynamic type. In the one-result form, which
  the compare functions use, a failed assertion panics; \<open>None\<close> stands for the failure.
\<close>

fun as_uint64 :: "value \<Rightarrow> 64 word option" where
  "as_uint64 (VUint64 w) = Some w"
| "as_uint64 _ = None"

fun as_int64 :: "value \<Rightarrow> 64 word option" where
  "as_int64 (VInt64 w) = Some w"
| "as_int64 _ = None"

fun as_float64 :: "value \<Rightarrow> 64 word option" where
  "as_float64 (VFloat64 w) = Some w"
| "as_float64 _ = None"

fun as_string :: "value \<Rightarrow> string option" where
  "as_string (VString s) = Some s"
| "as_string _ = None"

definition compareUint :: "int \<Rightarrow> value \<Rightarrow> value \<Rightarrow> bool outcome" where
  "compareUint op actual expected =
     (case as_uint64 actual of
        None \<Rightarrow> Panics
      | Some c0 \<Rightarrow>
          (case as_uint64 expected of
             None \<Rightarrow> Panics
           | Some c1 \<Rightarrow>
               Returns (if op = gt then unat c0 > unat c1
                        else if op = gte then unat c0 \<ge> unat c1
                        else if op = lt then unat c0 < unat c1
                        else if op = lte then unat c0 \<le> unat c1
                        else False)))"

definition compareInt :: "int \<Rightarrow> value \<Rightarrow> value \<Rightarrow> bool outcome" where
  "compareInt op actual expected =
     (case as_int64 actual of
        None \<Rightarrow> Panics
      | Some c0 \<Rightarrow>
          (case as_int64 expected of
             None \<Rightarrow> Panics
           | Some c1 \<Rightarrow>
               Returns (if op = gt then sint c0 > sint c1
                        else if op = gte then sint c0 \<ge> sint c1
                        else if op = lt then sint c0 < sint c1
                        else if op = lte then sint c0 \<le> sint c1
                        else False)))"

definition compareFloat :: "int \<Rightarrow> value \<Rightarrow> value \<Rightarrow> bool outcome" where
  "compareFloat op actual expected =
     (case as_float64 actual of
        None \<Rightarrow> Panics
      | Some c0 \<Rightarrow>
          (case as_float64 expected of
             None \<Rightarrow> Panics
           | Some c1 \<Rightarrow>
               Returns (if op = gt then f64_lt c1 c0
                        else if op = gte then f64_le c1 c0
                        else if op = lt then f64_lt c0 c1
                        else if op = lte then f64_le c0 c1
                        else False)))"

definition compareStr :: "'x stdlib_scheme \<Rightarrow> int \<Rightarrow> value \<Rightarrow> value \<Rightarrow> bool outcome" where
  "compareStr L op actual expected =
     (case as_string actual of
        None \<Rightarrow> Panics
      | Some s0 \<Rightarrow>
          (case as_string expected of
             None \<Rightarrow> Panics
           | Some s1 \<Rightarrow>
               (case ParseFloat L s0 of
                  None \<Rightarrow> Returns False
                | Some actualFloat \<Rightarrow>
                    (case ParseFloat L s1 of
                       None \<Rightarrow> Returns False
                     | Some expectedFloat \<Rightarrow>
                         Returns (if op = gt then f64_lt expectedFloat actualFloat
                                  else if op = gte then f64_le expectedFloat actualFloat
                                  else if op = lt then f64_lt actualFloat expectedFloat
                                  else if op = lte then f64_le actualFloat expectedFloat
                                  else False)))))"

text \<open>\<^verbatim>\<open>return f(...), nil\<close>: the boolean of a call that did not panic, with no error.\<close>

fun no_error :: "bool outcome \<Rightarrow> result" where
  "no_error (Returns b) = Returns (b, None)"
| "no_error Panics = Panics"

text \<open>
  \<^verbatim>\<open>inequality\<close>. When both operands are the nil interface their types agree, and the
  call of \<^verbatim>\<open>String()\<close> on the nil type panics.
\<close>

definition inequality :: "'x stdlib_scheme \<Rightarrow> int \<Rightarrow> value \<Rightarrow> value \<Rightarrow> result" where
  "inequality L op actual expected =
     (if TypeOf actual \<noteq> TypeOf expected then Returns (False, Some TypeMismatch)
      else
        (case TypeOf actual of
           None \<Rightarrow> Panics
         | Some ty \<Rightarrow>
             (let t = type_String ty in
              if t = ''uint8'' then no_error (compareUint op actual expected)
              else if t = ''uint16'' then no_error (compareUint op actual expected)
              else if t = ''uint32'' then no_error (compareUint op actual expected)
              else if t = ''uint64'' then no_error (compareUint op actual expected)
              else if t = ''uint'' then no_error (compareUint op actual expected)
              else if t = ''int8'' then no_error (compareInt op actual expected)
              else if t = ''int16'' then no_error (compareInt op actual expected)
              else if t = ''int32'' then no_error (compareInt op actual expected)
              else if t = ''int64'' then no_error (compareInt op actual expected)
              else if t = ''int'' then no_error (compareInt op actual expected)
              else if t = ''float32'' then no_error (compareFloat op actual expected)
              else if t = ''float64'' then no_error (compareFloat op actual expected)
              else if t = ''string'' then no_error (compareStr L op actual expected)
              else Returns (False, Some UnsupportedType))))"

section \<open>The pattern matcher\<close>

definition regexp :: "'x stdlib_scheme \<Rightarrow> value \<Rightarrow> value \<Rightarrow> result" where
  "regexp L actual expected =
     (case as_string expected of
        None \<Rightarrow> Returns (False, Some ExpectedNotString)
      | Some streg \<Rightarrow>
          (case as_string actual of
             None \<Rightarrow> Returns (False, Some ActualNotString)
           | Some astring \<Rightarrow>
               (case Compile L streg of
                  None \<Rightarrow> Returns (False, Some InvalidPattern)
                | Some reg \<Rightarrow> Returns (reg astring, None))))"

section \<open>The comparator dispatcher\<close>

text \<open>
  The rule type is declared outside \<^verbatim>\<open>ruler.go\<close>; the literal \<^verbatim>\<open>&Rule{"", path, nil}\<close>
  and the uses \<^verbatim>\<open>f.Comparator\<close>, \<^verbatim>\<open>f.Path\<close>, \<^verbatim>\<open>f.Value\<close> give its three fields.
\<close>

record Rule =
  Comparator :: string
  Path :: string
  Value :: "value"

text \<open>
  \<^verbatim>\<open>actual == expected\<close> on two interfaces: false for different dynamic types, a panic
  for the same type when it is not comparable, and the comparison of the payloads
  otherwise, which for floating point is IEEE equality.
\<close>

definition iface_eq :: "value \<Rightarrow> value \<Rightarrow> bool outcome" where
  "iface_eq a b =
     (if TypeOf a \<noteq> TypeOf b then Returns False
      else
        (case a of
           VMap _ \<Rightarrow> Panics
         | VSlice _ \<Rightarrow> Panics
         | VFloat32 x \<Rightarrow> (case b of VFloat32 y \<Rightarrow> Returns (f32_eq x y) | _ \<Rightarrow> Returns False)
         | VFloat64 x \<Rightarrow> (case b of VFloat64 y \<Rightarrow> Returns (f64_eq x y) | _ \<Rightarrow> Returns False)
         | _ \<Rightarrow> Returns (a = b)))"

fun negate :: "bool outcome \<Rightarrow> bool outcome" where
  "negate (Returns b) = Returns (\<not> b)"
| "negate Panics = Panics"

definition compare :: "'x stdlib_scheme \<Rightarrow> Rule \<Rightarrow> value \<Rightarrow> result" where
  "compare L f actual =
     (let expected = Value f; c = Comparator f in
      if c = ''eq'' then no_error (iface_eq actual expected)
      else if c = ''neq'' then no_error (negate (iface_eq actual expected))
      else if c = ''gt'' then inequality L gt actual expected
      else if c = ''gte'' then inequality L gte actual expected
      else if c = ''lt'' then inequality L lt actual expected
      else if c = ''lte'' then inequality L lte actual expected
      else if c = ''exists'' then
        (if actual \<noteq> VNil then Returns (True, None) else Returns (False, None))
      else if c = ''nexists'' then
        (if actual = VNil then Returns (True, None) else Returns (False, None))
      else if c = ''regex'' then regexp L actual expected
      else if c = ''contains'' then regexp L actual expected
      else if c = ''matches'' then regexp L actual expected
      else if c = ''ncontains'' then
        (case regexp L actual expected of
           Panics \<Rightarrow> Panics
         | Returns (result, err) \<Rightarrow>
             if err \<noteq> None then Returns (False, err) else Returns (\<not> result, err))
      else Returns (False, Some UnknownComparator))"

section \<open>The rule set evaluator: \<^verbatim>\<open>Test\<close>\<close>

text \<open>The method \<^verbatim>\<open>Comparable()\<close> called on what \<^verbatim>\<open>reflect.TypeOf\<close> gave: a panic on the nil type.\<close>

fun reflect_Comparable :: "gotype option \<Rightarrow> bool outcome" where
  "reflect_Comparable None = Panics"
| "reflect_Comparable (Some t) = Returns (type_Comparable t)"

text \<open>
  The body of the loop of \<^verbatim>\<open>Test\<close> for one rule: \<open>Some r\<close> when the body returns \<open>r\<close>
  from \<^verbatim>\<open>Test\<close>, \<open>None\<close> when it falls through to the next rule. Go evaluates
  \<^verbatim>\<open>!a.Comparable() || !e.Comparable()\<close> from the left and stops at the first true operand.
\<close>

definition Test_body :: "'x stdlib_scheme \<Rightarrow> Rule \<Rightarrow> object \<Rightarrow> result option" where
  "Test_body L f obj =
     (let val = pluck obj (Path f) in
      if val \<noteq> VNil then
        (case reflect_Comparable (TypeOf val) of
           Panics \<Rightarrow> Some Panics
         | Returns ca \<Rightarrow>
             if \<not> ca then Some (Returns (False, None))
             else
               (case reflect_Comparable (TypeOf (Value f)) of
                  Panics \<Rightarrow> Some Panics
                | Returns ce \<Rightarrow>
                    if \<not> ce then Some (Returns (False, None))
                    else
                      (case compare L f val of
                         Panics \<Rightarrow> Some Panics
                       | Returns (result, err) \<Rightarrow>
                           if err \<noteq> None then Some (Returns (False, err))
                           else if \<not> result then Some (Returns (False, None))
                           else None)))
      else if val = VNil \<and> (Comparator f = ''exists'' \<or> Comparator f = ''nexists'') then
        Some (compare L f val)
      else Some (Returns (False, Some (MissingProperty (Path f)))))"

text \<open>\<^verbatim>\<open>Test\<close>: the loop over the rules in order, and \<^verbatim>\<open>return true, nil\<close> after the last.\<close>

fun Test :: "'x stdlib_scheme \<Rightarrow> Rule list \<Rightarrow> object \<Rightarrow> result" where
  "Test L [] obj = Returns (True, None)"
| "Test L (f # fs) obj =
     (case Test_body L f obj of
        Some r \<Rightarrow> r
      | None \<Rightarrow> Test L fs obj)"

section \<open>Notions of the specification\<close>

text \<open>
  A value is unsupported when its type is not comparable: a nested mapping or a list.
\<close>

definition unsupported :: "value \<Rightarrow> bool" where
  "unsupported v = (case TypeOf v of None \<Rightarrow> False | Some t \<Rightarrow> \<not> type_Comparable t)"

text \<open>
  Path resolution as the specification words it, on the segments of the path: every
  segment but the last must name a nested mapping of the current node, and the walk
  goes on in it; the last segment's value is the result if the key is there. \<open>None\<close>
  is "absent".
\<close>

fun resolve :: "object \<Rightarrow> string list \<Rightarrow> value option" where
  "resolve node [] = None"
| "resolve node [seg] = map_of node seg"
| "resolve node (seg # segs) =
     (case map_of node seg of
        Some (VMap m) \<Rightarrow> resolve m segs
      | _ \<Rightarrow> None)"

text \<open>
  The walk along the segments finds every key it asks for and meets a stored nil, at
  the last segment or before it.
\<close>

fun nil_on_path :: "object \<Rightarrow> string list \<Rightarrow> bool" where
  "nil_on_path node [] = False"
| "nil_on_path node (seg # segs) =
     (case map_of node seg of
        Some VNil \<Rightarrow> True
      | Some (VMap m) \<Rightarrow> nil_on_path m segs
      | _ \<Rightarrow> False)"

text \<open>
  A floating-point NaN, and a floating-point zero of either sign.
\<close>

fun is_NaN :: "value \<Rightarrow> bool" where
  "is_NaN (VFloat32 x) = f32_isNaN x"
| "is_NaN (VFloat64 x) = f64_isNaN x"
| "is_NaN _ = False"

fun is_float_zero :: "value \<Rightarrow> bool" where
  "is_float_zero (VFloat32 x) = (x AND 0x7FFFFFFF = 0)"
| "is_float_zero (VFloat64 x) = (x AND 0x7FFFFFFFFFFFFFFF = 0)"
| "is_float_zero _ = False"

subsection \<open>An instance of the library functions for examples\<close>

text \<open>
  The numbers 9 and 10 are \<open>0x4022000000000000\<close> and \<open>0x4024000000000000\<close> as 64-bit
  floating point; \<^verbatim>\<open>(\<close> is a pattern that does not compile, and the pattern \<^verbatim>\<open>^A\<close>
  matches the strings that begin with \<^verbatim>\<open>A\<close>.
\<close>

definition example_lib :: stdlib where
  "example_lib =
     \<lparr> ParseFloat = (\<lambda>s. if s = ''9'' then Some 0x4022000000000000
                          else if s = ''10'' then Some 0x4024000000000000
                          else None),
       Compile = (\<lambda>p. if p = ''^A'' then Some (\<lambda>s. s \<noteq> [] \<and> hd s = CHR ''A'')
                       else None) \<rparr>"

section \<open>Path resolution follows the segments\<close>

lemma Split_not_Nil: "Split s c \<noteq> []"
  by (induction s) (auto split: list.splits)

lemma drop_last_index:
  assumes "0 < length xs"
  shows "drop (length xs - 1) xs = [xs ! (length xs - 1)]"
proof -
  have "length xs - 1 < length xs" using assms by simp
  then have "drop (length xs - 1) xs = xs ! (length xs - 1) # drop (Suc (length xs - 1)) xs"
    by (rule Cons_nth_drop_Suc[symmetric])
  then show ?thesis using assms by simp
qed

lemma drop_two:
  assumes "Suc i < length xs"
  shows "\<exists>y ys. drop i xs = xs ! i # y # ys \<and> drop (Suc i) xs = y # ys"
proof -
  have a: "drop i xs = xs ! i # drop (Suc i) xs"
    using assms by (simp add: Cons_nth_drop_Suc)
  have b: "drop (Suc i) xs = xs ! Suc i # drop (Suc (Suc i)) xs"
    using assms by (simp add: Cons_nth_drop_Suc)
  show ?thesis using a b by simp
qed

lemma pluck_loop_resolve:
  "0 < i \<Longrightarrow> i < length parts \<Longrightarrow>
   (case pluck_loop parts i prev of None \<Rightarrow> VNil
    | Some m \<Rightarrow> map_index m (parts ! (length parts - 1)))
   = (case resolve prev (drop i parts) of None \<Rightarrow> VNil | Some v \<Rightarrow> v)"
proof (induction parts i prev rule: pluck_loop.induct)
  case (1 parts i prev)
  show ?case
  proof (cases "i < length parts - 1")
    case False
    with "1.prems" have i: "i = length parts - 1" by simp
    have "0 < length parts" using "1.prems" by auto
    from drop_last_index[OF this] have d: "drop i parts = [parts ! (length parts - 1)]"
      using i by simp
    have l: "pluck_loop parts i prev = Some prev"
      using False by (simp add: pluck_loop.simps[of parts i prev])
    show ?thesis unfolding l d
      by (simp add: map_index_def split: option.splits)
  next
    case True
    then have "Suc i < length parts" by simp
    from drop_two[OF this] obtain y ys
      where d: "drop i parts = parts ! i # y # ys" and d': "drop (Suc i) parts = y # ys"
      by blast
    show ?thesis
    proof (cases "map_of prev (parts ! i)")
      case None
      then have "pluck_loop parts i prev = None"
        using True by (simp add: pluck_loop.simps[of parts i prev] map_index_def)
      then show ?thesis using None d by simp
    next
      case (Some v)
      then have mi: "map_index prev (parts ! i) = v" by (simp add: map_index_def)
      show ?thesis
      proof (cases "as_map v")
        case None
        then have "pluck_loop parts i prev = None"
          using True mi by (simp add: pluck_loop.simps[of parts i prev])
        moreover have "resolve prev (drop i parts) = None"
          using None Some d by (cases v) simp_all
        ultimately show ?thesis by simp
      next
        case (Some m)
        then have v: "v = VMap m" by (cases v) simp_all
        have nn: "map_index prev (parts ! i) \<noteq> VNil" using mi v by simp
        have am: "as_map (map_index prev (parts ! i)) = Some m" using mi v by simp
        have l: "pluck_loop parts i prev = pluck_loop parts (i + 1) m"
          using True nn am by (simp add: pluck_loop.simps[of parts i prev])
        have r: "resolve prev (drop i parts) = resolve m (drop (i + 1) parts)"
          using \<open>map_of prev (parts ! i) = Some v\<close> v d d' by simp
        have "(case pluck_loop parts (i + 1) m of None \<Rightarrow> VNil
                | Some m \<Rightarrow> map_index m (parts ! (length parts - 1)))
              = (case resolve m (drop (i + 1) parts) of None \<Rightarrow> VNil | Some v \<Rightarrow> v)"
          using "1.IH"[OF True refl nn am] True by simp
        then show ?thesis unfolding l r .
      qed
    qed
  qed
qed

lemma pluck_resolve:
  "pluck obj path = (case resolve obj (Split path (CHR ''.'')) of None \<Rightarrow> VNil | Some v \<Rightarrow> v)"
proof -
  define parts where "parts = Split path (CHR ''.'')"
  have ne: "parts \<noteq> []" unfolding parts_def by (rule Split_not_Nil)
  then obtain p ps where P: "parts = p # ps" by (cases parts) auto
  show ?thesis
  proof (cases ps)
    case Nil
    then show ?thesis using P
      by (simp add: pluck_def parts_def[symmetric] Let_def map_index_def split: option.splits)
  next
    case (Cons q qs)
    have len: "1 < length parts" using P Cons by simp
    show ?thesis
    proof (cases "as_map (map_index obj p)")
      case None
      have "resolve obj parts = None"
      proof (cases "map_of obj p")
        case absent: None
        then show ?thesis using P Cons by simp
      next
        case stored: (Some v)
        then have "map_index obj p = v" by (simp add: map_index_def)
        then have "as_map v = None" using None by simp
        then show ?thesis using P Cons stored by (cases v) simp_all
      qed
      then show ?thesis using None P Cons
        by (simp add: pluck_def parts_def[symmetric] Let_def)
    next
      case (Some m)
      then have v: "map_index obj p = VMap m" by (cases "map_index obj p") simp_all
      then have mo: "map_of obj p = Some (VMap m)"
        by (auto simp: map_index_def split: option.splits)
      have r: "resolve obj parts = resolve m (drop 1 parts)" using P Cons mo by simp
      have lp: "(case pluck_loop parts 1 m of None \<Rightarrow> VNil
                | Some m \<Rightarrow> map_index m (parts ! (length parts - 1)))
              = (case resolve m (drop 1 parts) of None \<Rightarrow> VNil | Some v \<Rightarrow> v)"
        using len by (intro pluck_loop_resolve) simp_all
      have p0: "parts ! 0 = p" using P by simp
      have pl: "pluck obj path = (case pluck_loop parts 1 m of None \<Rightarrow> VNil
                | Some m \<Rightarrow> map_index m (parts ! (length parts - 1)))"
        using v len p0
        by (simp add: pluck_def parts_def[symmetric] Let_def split: option.splits)
      show ?thesis unfolding parts_def[symmetric] r pl lp ..
    qed
  qed
qed

section \<open>Floating-point equality on bit patterns\<close>

lemma mask63: "(0x7FFFFFFFFFFFFFFF :: 64 word) = mask 63"
  by (simp add: mask_eq_exp_minus_1)

lemma mask31: "(0x7FFFFFFF :: 32 word) = mask 31"
  by (simp add: mask_eq_exp_minus_1)

lemma word64_split_sign:
  fixes x y :: "64 word"
  assumes "x AND mask 63 = y AND mask 63" and "bit x 63 = bit y 63"
  shows "x = y"
proof (rule bit_word_eqI)
  fix n assume n: "n < LENGTH(64)"
  show "bit x n = bit y n"
  proof (cases "n = 63")
    case True then show ?thesis using assms(2) by simp
  next
    case False
    then have "n < 63" using n by simp
    moreover have "bit (x AND mask 63) n = bit (y AND mask 63) n" using assms(1) by simp
    ultimately show ?thesis by (simp add: bit_and_iff bit_mask_iff)
  qed
qed

lemma word32_split_sign:
  fixes x y :: "32 word"
  assumes "x AND mask 31 = y AND mask 31" and "bit x 31 = bit y 31"
  shows "x = y"
proof (rule bit_word_eqI)
  fix n assume n: "n < LENGTH(32)"
  show "bit x n = bit y n"
  proof (cases "n = 31")
    case True then show ?thesis using assms(2) by simp
  next
    case False
    then have "n < 31" using n by simp
    moreover have "bit (x AND mask 31) n = bit (y AND mask 31) n" using assms(1) by simp
    ultimately show ?thesis by (simp add: bit_and_iff bit_mask_iff)
  qed
qed

lemma f64_eq_iff:
  "f64_eq x y \<longleftrightarrow> (x = y \<and> \<not> f64_isNaN x) \<or> (x AND 0x7FFFFFFFFFFFFFFF = 0 \<and> y AND 0x7FFFFFFFFFFFFFFF = 0)"
proof -
  have z: "\<not> f64_isNaN w" if "w AND 0x7FFFFFFFFFFFFFFF = 0" for w
    using that by (simp add: f64_isNaN_def)
  have u0: "uint a = 0 \<longleftrightarrow> a = 0" for a :: "64 word" by (simp add: uint_0_iff)
  have k: "f64_key x = f64_key y \<longleftrightarrow>
      (x = y) \<or> (x AND 0x7FFFFFFFFFFFFFFF = 0 \<and> y AND 0x7FFFFFFFFFFFFFFF = 0)"
  proof
    assume e: "f64_key x = f64_key y"
    show "(x = y) \<or> (x AND 0x7FFFFFFFFFFFFFFF = 0 \<and> y AND 0x7FFFFFFFFFFFFFFF = 0)"
    proof (cases "bit x 63 = bit y 63")
      case True
      then have "uint (x AND 0x7FFFFFFFFFFFFFFF) = uint (y AND 0x7FFFFFFFFFFFFFFF)"
        using e by (auto simp: f64_key_def split: if_splits)
      then have "x AND mask 63 = y AND mask 63" unfolding mask63 by (rule word_uint_eqI)
      then show ?thesis using True word64_split_sign by blast
    next
      case False
      define a b where "a = uint (x AND 0x7FFFFFFFFFFFFFFF)" and "b = uint (y AND 0x7FFFFFFFFFFFFFFF)"
      have nn: "0 \<le> a" "0 \<le> b" unfolding a_def b_def by simp_all
      have "a = - b \<or> - a = b"
        using e False unfolding a_def b_def f64_key_def by (auto split: if_splits)
      then have "a = 0 \<and> b = 0" using nn by arith
      then show ?thesis unfolding a_def b_def using u0 by blast
    qed
  next
    assume "(x = y) \<or> (x AND 0x7FFFFFFFFFFFFFFF = 0 \<and> y AND 0x7FFFFFFFFFFFFFFF = 0)"
    then show "f64_key x = f64_key y" by (auto simp: f64_key_def)
  qed
  show ?thesis unfolding f64_eq_def k using z by blast
qed

lemma f32_eq_iff:
  "f32_eq x y \<longleftrightarrow> (x = y \<and> \<not> f32_isNaN x) \<or> (x AND 0x7FFFFFFF = 0 \<and> y AND 0x7FFFFFFF = 0)"
proof -
  have z: "\<not> f32_isNaN w" if "w AND 0x7FFFFFFF = 0" for w
    using that by (simp add: f32_isNaN_def)
  have u0: "uint a = 0 \<longleftrightarrow> a = 0" for a :: "32 word" by (simp add: uint_0_iff)
  have k: "f32_key x = f32_key y \<longleftrightarrow>
      (x = y) \<or> (x AND 0x7FFFFFFF = 0 \<and> y AND 0x7FFFFFFF = 0)"
  proof
    assume e: "f32_key x = f32_key y"
    show "(x = y) \<or> (x AND 0x7FFFFFFF = 0 \<and> y AND 0x7FFFFFFF = 0)"
    proof (cases "bit x 31 = bit y 31")
      case True
      then have "uint (x AND 0x7FFFFFFF) = uint (y AND 0x7FFFFFFF)"
        using e by (auto simp: f32_key_def split: if_splits)
      then have "x AND mask 31 = y AND mask 31" unfolding mask31 by (rule word_uint_eqI)
      then show ?thesis using True word32_split_sign by blast
    next
      case False
      define a b where "a = uint (x AND 0x7FFFFFFF)" and "b = uint (y AND 0x7FFFFFFF)"
      have nn: "0 \<le> a" "0 \<le> b" unfolding a_def b_def by simp_all
      have "a = - b \<or> - a = b"
        using e False unfolding a_def b_def f32_key_def by (auto split: if_splits)
      then have "a = 0 \<and> b = 0" using nn by arith
      then show ?thesis unfolding a_def b_def using u0 by blast
    qed
  next
    assume "(x = y) \<or> (x AND 0x7FFFFFFF = 0 \<and> y AND 0x7FFFFFFF = 0)"
    then show "f32_key x = f32_key y" by (auto simp: f32_key_def)
  qed
  show ?thesis unfolding f32_eq_def k using z by blast
qed

section \<open>The evaluator, rule by rule\<close>

lemma Test_append_continue:
  "\<forall>g\<in>set pre. Test_body L g obj = None \<Longrightarrow> Test L (pre @ fs) obj = Test L fs obj"
  by (induction pre) simp_all

lemma Test_body_absent:
  assumes "pluck obj (Path f) = VNil"
  shows "Test_body L f obj =
    Some (if Comparator f = ''exists'' then Returns (False, None)
          else if Comparator f = ''nexists'' then Returns (True, None)
          else Returns (False, Some (MissingProperty (Path f))))"
  using assms by (simp add: Test_body_def compare_def)

lemma Test_body_unsupported:
  assumes "pluck obj (Path f) \<noteq> VNil"
    and "unsupported (pluck obj (Path f)) \<or> unsupported (Value f)"
  shows "Test_body L f obj = Some (Returns (False, None))"
proof -
  obtain t where t: "TypeOf (pluck obj (Path f)) = Some t"
    using assms(1) by (cases "pluck obj (Path f)") simp_all
  show ?thesis
  proof (cases "type_Comparable t")
    case False
    then show ?thesis using assms(1) t by (simp add: Test_body_def)
  next
    case True
    then have "unsupported (Value f)" using assms(2) t by (simp add: unsupported_def)
    then obtain u where "TypeOf (Value f) = Some u" "\<not> type_Comparable u"
      by (auto simp: unsupported_def split: option.splits)
    then show ?thesis using assms(1) t True by (simp add: Test_body_def)
  qed
qed

lemma nil_on_path_resolve:
  "nil_on_path node segs \<Longrightarrow> resolve node segs = None \<or> resolve node segs = Some VNil"
proof (induction node segs rule: resolve.induct)
  case (1 node)
  then show ?case by simp
next
  case (2 node seg)
  show ?case
  proof (cases "map_of node seg")
    case None
    then show ?thesis by simp
  next
    case (Some v)
    then show ?thesis using "2.prems" by (cases v) simp_all
  qed
next
  case (3 node seg s segs)
  show ?case
  proof (cases "map_of node seg")
    case None
    then show ?thesis by simp
  next
    case (Some v)
    then show ?thesis using "3.prems" "3.IH" by (cases v) simp_all
  qed
qed

lemma nil_on_path_pluck:
  "nil_on_path obj (Split path (CHR ''.'')) \<Longrightarrow> pluck obj path = VNil"
  using nil_on_path_resolve[of obj "Split path (CHR ''.'')"] by (auto simp: pluck_resolve)

lemma regexp_error_False:
  "regexp L actual expected = Returns (b, Some e) \<Longrightarrow> \<not> b"
  by (auto simp: regexp_def split: option.splits)

lemma regexp_not_Panics: "regexp L actual expected \<noteq> Panics"
  by (auto simp: regexp_def split: option.splits)

lemma iface_eq_comparable:
  assumes "\<not> unsupported a"
  shows "iface_eq a b =
     Returns ((a = b \<and> \<not> is_NaN a) \<or>
              (is_float_zero a \<and> is_float_zero b \<and> TypeOf a = TypeOf b))"
proof (cases "TypeOf a = TypeOf b")
  case False
  then have "a \<noteq> b" by auto
  then show ?thesis using False by (simp add: iface_eq_def)
next
  case True
  then show ?thesis using assms
    by (cases a; cases b) (simp_all add: iface_eq_def unsupported_def f64_eq_iff f32_eq_iff)
qed

section \<open>The claims of the specification\<close>

subsection \<open>Integer inequality\<close>

text \<open>
  Lemmas on the integer cases of \<^verbatim>\<open>inequality\<close>: operands of type \<^verbatim>\<open>int64\<close> or
  \<^verbatim>\<open>uint64\<close> are compared as 64-bit signed or unsigned numbers; for every other
  integer type the type assertion in \<^verbatim>\<open>compareInt\<close> or \<^verbatim>\<open>compareUint\<close> fails and the
  call panics.
\<close>

lemma inequality_int64:
  "inequality L op (VInt64 a) (VInt64 b) =
     Returns (if op = gt then sint a > sint b
              else if op = gte then sint a \<ge> sint b
              else if op = lt then sint a < sint b
              else if op = lte then sint a \<le> sint b
              else False, None)"
  by (simp add: inequality_def compareInt_def)

lemma inequality_uint64:
  "inequality L op (VUint64 a) (VUint64 b) =
     Returns (if op = gt then unat a > unat b
              else if op = gte then unat a \<ge> unat b
              else if op = lt then unat a < unat b
              else if op = lte then unat a \<le> unat b
              else False, None)"
  by (simp add: inequality_def compareUint_def)

lemma inequality_same_width_panics:
  "inequality L op (VInt8 a) (VInt8 b) = Panics"
  "inequality L op (VInt16 c) (VInt16 d) = Panics"
  "inequality L op (VInt32 e) (VInt32 f) = Panics"
  "inequality L op (VInt g) (VInt h) = Panics"
  "inequality L op (VUint8 a) (VUint8 b) = Panics"
  "inequality L op (VUint16 c) (VUint16 d) = Panics"
  "inequality L op (VUint32 e) (VUint32 f) = Panics"
  "inequality L op (VUint g) (VUint h) = Panics"
  by (simp_all add: inequality_def compareInt_def compareUint_def)

text \<open>
  Claim C1 says that an inequality between two operands of the same integer type, of
  any width and signedness, returns the ordering of the operands with no error. The
  code does not: \<^verbatim>\<open>inequality\<close> sends the types \<^verbatim>\<open>int32\<close>, \<^verbatim>\<open>uint8\<close> and \<^verbatim>\<open>int\<close> to
  \<^verbatim>\<open>compareInt\<close> and \<^verbatim>\<open>compareUint\<close>, whose assertions \<^verbatim>\<open>actual.(int64)\<close> and
  \<^verbatim>\<open>actual.(uint64)\<close> panic on them. The theorem runs the code on 5 and 3 at these
  three types.
\<close>

theorem inequality_narrow_integers_panic:
  "inequality L gt (VInt32 5) (VInt32 3) = Panics \<and>
   inequality L lt (VUint8 5) (VUint8 3) = Panics \<and>
   inequality L gte (VInt 5) (VInt 3) = Panics"
  by (simp add: inequality_def compareInt_def compareUint_def)

subsection \<open>Conjunction over the rules\<close>

text \<open>
  What holds of the loop: a rule set whose rules all fall through to the end yields
  true, the empty one included, and the first rule that yields false after rules that
  fell through decides the result.
\<close>

lemma Test_all_continue:
  "\<forall>g\<in>set fs. Test_body L g obj = None \<Longrightarrow> Test L fs obj = Returns (True, None)"
  by (induction fs) simp_all

lemma Test_first_false:
  "\<forall>g\<in>set pre. Test_body L g obj = None \<Longrightarrow> Test_body L f obj = Some (Returns (False, None))
   \<Longrightarrow> Test L (pre @ f # rest) obj = Returns (False, None)"
  by (simp add: Test_append_continue)

text \<open>
  Claim C2 says that \<^verbatim>\<open>Test\<close> yields true if and only if every rule of the sequence
  yields true. The code does not: for a rule \<^verbatim>\<open>nexists\<close> on an absent path the loop
  body is \<^verbatim>\<open>return r.compare(f, val)\<close>, which returns true from \<^verbatim>\<open>Test\<close> before
  the remaining rules are looked at. On the document \<^verbatim>\<open>{a: 1}\<close> the rules
  \<^verbatim>\<open>nexists x\<close>, \<^verbatim>\<open>eq a 2\<close> yield true, although the rule \<^verbatim>\<open>eq a 2\<close> alone yields
  false.
\<close>

theorem Test_nexists_returns_early:
  "Test L [\<lparr>Comparator = ''nexists'', Path = ''x'', Value = VBool True\<rparr>,
           \<lparr>Comparator = ''eq'', Path = ''a'', Value = VInt64 2\<rparr>]
          [(''a'', VInt64 1)] = Returns (True, None) \<and>
   Test L [\<lparr>Comparator = ''eq'', Path = ''a'', Value = VInt64 2\<rparr>]
          [(''a'', VInt64 1)] = Returns (False, None)"
  by (simp add: Test_body_def pluck_def map_index_def compare_def iface_eq_def)

subsection \<open>Unsupported operands\<close>

text \<open>
  Claim C3: when a rule is reached whose path resolves to a present value, and the
  resolved value or the rule's expected value is unsupported (its type is not
  comparable: a nested mapping or a list), \<^verbatim>\<open>Test\<close> returns false with no error,
  whatever the rule's comparator and whatever rules follow. The rules before it are
  those whose loop body fell through.
\<close>

theorem Test_unsupported_aborts:
  assumes "\<forall>g\<in>set pre. Test_body L g obj = None"
    and "pluck obj (Path f) \<noteq> VNil"
    and "unsupported (pluck obj (Path f)) \<or> unsupported (Value f)"
  shows "Test L (pre @ f # rest) obj = Returns (False, None)"
  using assms by (simp add: Test_append_continue Test_body_unsupported)

theorem Test_unsupported_aborts_witness:
  "pluck [(''a'', VInt64 1), (''m'', VMap [(''k'', VBool True)])] ''m'' \<noteq> VNil \<and>
   unsupported (pluck [(''a'', VInt64 1), (''m'', VMap [(''k'', VBool True)])] ''m'') \<and>
   Test example_lib
     ([\<lparr>Comparator = ''eq'', Path = ''a'', Value = VInt64 1\<rparr>] @
      \<lparr>Comparator = ''exists'', Path = ''m'', Value = VBool True\<rparr> #
      [\<lparr>Comparator = ''eq'', Path = ''a'', Value = VInt64 1\<rparr>])
     [(''a'', VInt64 1), (''m'', VMap [(''k'', VBool True)])] = Returns (False, None)"
proof -
  let ?obj = "[(''a'', VInt64 1), (''m'', VMap [(''k'', VBool True)])]"
  let ?f = "\<lparr>Comparator = ''exists'', Path = ''m'', Value = VBool True\<rparr>"
  let ?g = "\<lparr>Comparator = ''eq'', Path = ''a'', Value = VInt64 1\<rparr>"
  have p: "pluck ?obj ''m'' = VMap [(''k'', VBool True)]"
    by (simp add: pluck_def map_index_def)
  have pa: "pluck ?obj ''a'' = VInt64 1"
    by (simp add: pluck_def map_index_def)
  have h1: "\<forall>g\<in>set [?g]. Test_body example_lib g ?obj = None"
    by (simp add: Test_body_def pa compare_def iface_eq_def)
  have h2: "pluck ?obj (Path ?f) \<noteq> VNil" by (simp add: p)
  have h3: "unsupported (pluck ?obj (Path ?f)) \<or> unsupported (Value ?f)"
    by (simp add: p unsupported_def)
  show ?thesis
    using Test_unsupported_aborts[OF h1 h2 h3, of "[?g]"] h2 h3 by (simp add: p unsupported_def)
qed

subsection \<open>Absent values\<close>

text \<open>
  Claim C4: when a rule is reached whose path resolves to absent (\<^verbatim>\<open>pluck\<close> returns
  nil), \<^verbatim>\<open>Test\<close> returns false for the comparator \<^verbatim>\<open>exists\<close>, true for \<^verbatim>\<open>nexists\<close>,
  and for every other comparator false with the error that names the path.
\<close>

theorem Test_absent_value:
  assumes "\<forall>g\<in>set pre. Test_body L g obj = None"
    and "pluck obj (Path f) = VNil"
  shows "Test L (pre @ f # rest) obj =
    (if Comparator f = ''exists'' then Returns (False, None)
     else if Comparator f = ''nexists'' then Returns (True, None)
     else Returns (False, Some (MissingProperty (Path f))))"
  using assms by (simp add: Test_append_continue Test_body_absent)

theorem Test_absent_value_witness:
  "pluck [(''a'', VInt64 1)] ''x'' = VNil \<and>
   Test example_lib [\<lparr>Comparator = ''nexists'', Path = ''x'', Value = VBool True\<rparr>]
     [(''a'', VInt64 1)] = Returns (True, None) \<and>
   Test example_lib [\<lparr>Comparator = ''exists'', Path = ''x'', Value = VBool True\<rparr>]
     [(''a'', VInt64 1)] = Returns (False, None) \<and>
   Test example_lib [\<lparr>Comparator = ''eq'', Path = ''x'', Value = VInt64 1\<rparr>]
     [(''a'', VInt64 1)] = Returns (False, Some (MissingProperty ''x''))"
proof -
  let ?obj = "[(''a'', VInt64 1)]"
  have p: "pluck ?obj ''x'' = VNil" by (simp add: pluck_def map_index_def)
  have h: "\<forall>g\<in>set []. Test_body example_lib g ?obj = None" by simp
  show ?thesis
    using Test_absent_value[OF h, of "\<lparr>Comparator = ''nexists'', Path = ''x'', Value = VBool True\<rparr>" "[]"]
      Test_absent_value[OF h, of "\<lparr>Comparator = ''exists'', Path = ''x'', Value = VBool True\<rparr>" "[]"]
      Test_absent_value[OF h, of "\<lparr>Comparator = ''eq'', Path = ''x'', Value = VInt64 1\<rparr>" "[]"]
      p
    by simp
qed

subsection \<open>Inequality between different types\<close>

text \<open>
  Claim C5: an inequality between operands of different dynamic types, two integer
  types of different width or signedness included, returns the type-mismatch error;
  no operand is converted.
\<close>

theorem inequality_type_mismatch:
  assumes "TypeOf actual \<noteq> TypeOf expected"
  shows "inequality L op actual expected = Returns (False, Some TypeMismatch)"
  using assms by (simp add: inequality_def)

theorem inequality_type_mismatch_witness:
  "TypeOf (VInt32 7) \<noteq> TypeOf (VInt64 3) \<and>
   inequality example_lib gt (VInt32 7) (VInt64 3) = Returns (False, Some TypeMismatch)"
proof -
  have h: "TypeOf (VInt32 7) \<noteq> TypeOf (VInt64 3)" by simp
  show ?thesis using inequality_type_mismatch[OF h, of example_lib gt] h by simp
qed

subsection \<open>Inequality between strings\<close>



subsection \<open>Negated pattern matching\<close>

text \<open>
  Claim C7: for the comparator \<^verbatim>\<open>ncontains\<close> the dispatcher returns the negation of
  the pattern matcher's boolean when the matcher returns no error, and returns the
  matcher's result with its error as it is otherwise; a pattern that does not compile
  gives the invalid-pattern error and no negated boolean.
\<close>

theorem ncontains_negates_or_propagates:
  assumes "Comparator f = ''ncontains''"
  shows "(regexp L actual (Value f) = Returns (b, None) \<longrightarrow>
            compare L f actual = Returns (\<not> b, None)) \<and>
         (regexp L actual (Value f) = Returns (b, Some e) \<longrightarrow>
            compare L f actual = Returns (b, Some e)) \<and>
         (actual = VString s \<and> Value f = VString p \<and> Compile L p = None \<longrightarrow>
            compare L f actual = Returns (False, Some InvalidPattern))"
proof (intro conjI impI)
  assume "regexp L actual (Value f) = Returns (b, None)"
  then show "compare L f actual = Returns (\<not> b, None)"
    using assms by (simp add: compare_def)
next
  assume r: "regexp L actual (Value f) = Returns (b, Some e)"
  then have "\<not> b" by (rule regexp_error_False)
  then show "compare L f actual = Returns (b, Some e)"
    using assms r by (simp add: compare_def)
next
  assume "actual = VString s \<and> Value f = VString p \<and> Compile L p = None"
  then show "compare L f actual = Returns (False, Some InvalidPattern)"
    using assms by (simp add: compare_def regexp_def)
qed

theorem ncontains_negates_or_propagates_witness:
  "compare example_lib \<lparr>Comparator = ''ncontains'', Path = ''name'', Value = VString ''^A''\<rparr>
     (VString ''Alice'') = Returns (False, None) \<and>
   compare example_lib \<lparr>Comparator = ''ncontains'', Path = ''name'', Value = VString ''^A''\<rparr>
     (VString ''bob'') = Returns (True, None) \<and>
   compare example_lib \<lparr>Comparator = ''ncontains'', Path = ''name'', Value = VString ''(''\<rparr>
     (VString ''Alice'') = Returns (False, Some InvalidPattern)"
proof -
  let ?f = "\<lparr>Comparator = ''ncontains'', Path = ''name'', Value = VString ''^A''\<rparr>"
  let ?g = "\<lparr>Comparator = ''ncontains'', Path = ''name'', Value = VString ''(''\<rparr>"
  have c: "Comparator ?f = ''ncontains''" "Comparator ?g = ''ncontains''" by simp_all
  have r1: "regexp example_lib (VString ''Alice'') (Value ?f) = Returns (True, None)"
    by (simp add: regexp_def example_lib_def)
  have r2: "regexp example_lib (VString ''bob'') (Value ?f) = Returns (False, None)"
    by (simp add: regexp_def example_lib_def)
  have r3: "Compile example_lib ''('' = None" by (simp add: example_lib_def)
  show ?thesis
    using ncontains_negates_or_propagates[OF c(1), of example_lib "VString ''Alice''" True]
      ncontains_negates_or_propagates[OF c(1), of example_lib "VString ''bob''" False]
      ncontains_negates_or_propagates[OF c(2), of example_lib "VString ''Alice''" _ _ "''Alice''" "''(''"]
      r1 r2 r3
    by simp
qed

subsection \<open>Equality\<close>

text \<open>
  Claim C8 says that for \<^verbatim>\<open>eq\<close> (and \<^verbatim>\<open>neq\<close>) on a present value the result is true
  (false) exactly when actual and expected have the same kind and the same value. It
  fails on a floating-point NaN, which has the kind and the bits of itself and is not
  equal to itself, and on unsupported operands: \<^verbatim>\<open>Test\<close> returns false for \<^verbatim>\<open>neq\<close>
  between a nested mapping and an integer, and \<^verbatim>\<open>compare\<close> panics on two mappings.
\<close>

theorem eq_nan_and_unsupported_counterexample:
  "Test example_lib [\<lparr>Comparator = ''eq'', Path = ''p'', Value = VFloat64 0x7FF8000000000000\<rparr>]
     [(''p'', VFloat64 0x7FF8000000000000)] = Returns (False, None) \<and>
   compare example_lib \<lparr>Comparator = ''eq'', Path = ''p'', Value = VFloat64 0x7FF8000000000000\<rparr>
     (VFloat64 0x7FF8000000000000) = Returns (False, None) \<and>
   Test example_lib [\<lparr>Comparator = ''neq'', Path = ''p'', Value = VInt64 5\<rparr>]
     [(''p'', VMap [(''k'', VInt64 5)])] = Returns (False, None) \<and>
   compare example_lib \<lparr>Comparator = ''eq'', Path = ''p'', Value = VMap [(''k'', VInt64 5)]\<rparr>
     (VMap [(''k'', VInt64 5)]) = Panics"
  by (simp add: Test_body_def pluck_def map_index_def compare_def iface_eq_def
      f64_eq_def f64_isNaN_def)

text \<open>
  Claim C8 as amended: for a rule with comparator \<^verbatim>\<open>eq\<close> (\<^verbatim>\<open>neq\<close>), a present resolved
  value, and operands that both have a comparable type, the result is true (false)
  exactly when actual and expected have the same type and equal values, where
  floating-point values are equal by IEEE 754: a NaN is equal to nothing, and the
  zeros of both signs are equal. Values of different types are never equal.
\<close>

theorem eq_neq_comparable:
  assumes "pluck obj (Path f) = actual" and "actual \<noteq> VNil"
    and "\<not> unsupported actual" and "\<not> unsupported (Value f)" and "Value f \<noteq> VNil"
  shows "(Comparator f = ''eq'' \<longrightarrow>
            compare L f actual =
              Returns ((actual = Value f \<and> \<not> is_NaN actual) \<or>
                       (is_float_zero actual \<and> is_float_zero (Value f) \<and>
                        TypeOf actual = TypeOf (Value f)), None) \<and>
            Test L [f] obj = compare L f actual) \<and>
         (Comparator f = ''neq'' \<longrightarrow>
            compare L f actual =
              Returns (\<not> ((actual = Value f \<and> \<not> is_NaN actual) \<or>
                          (is_float_zero actual \<and> is_float_zero (Value f) \<and>
                           TypeOf actual = TypeOf (Value f))), None) \<and>
            Test L [f] obj = compare L f actual) \<and>
         (TypeOf actual \<noteq> TypeOf (Value f) \<longrightarrow>
            (Comparator f = ''eq'' \<longrightarrow> compare L f actual = Returns (False, None)) \<and>
            (Comparator f = ''neq'' \<longrightarrow> compare L f actual = Returns (True, None)))"
proof -
  let ?same = "(actual = Value f \<and> \<not> is_NaN actual) \<or>
                       (is_float_zero actual \<and> is_float_zero (Value f) \<and>
                        TypeOf actual = TypeOf (Value f))"
  have ie: "iface_eq actual (Value f) = Returns ?same"
    using assms(3) by (rule iface_eq_comparable)
  obtain t where t: "TypeOf actual = Some t" "type_Comparable t"
    using assms(2,3) by (cases actual) (simp_all add: unsupported_def)
  obtain u where u: "TypeOf (Value f) = Some u" "type_Comparable u"
    using assms(4,5) by (cases "Value f") (simp_all add: unsupported_def)
  have ceq: "compare L f actual = Returns (?same, None)" if "Comparator f = ''eq''"
    using that ie by (simp add: compare_def)
  have cneq: "compare L f actual = Returns (\<not> ?same, None)" if "Comparator f = ''neq''"
    using that ie by (simp add: compare_def)
  have tb: "Test L [f] obj = compare L f actual"
    if "compare L f actual = Returns (r, None)" for r
    using that assms(1,2) t u by (simp add: Test_body_def)
  have diff: "\<not> ?same" if "TypeOf actual \<noteq> TypeOf (Value f)"
    using that by auto
  show ?thesis
  proof (intro conjI impI)
    assume c: "Comparator f = ''eq''"
    show "compare L f actual = Returns (?same, None)" using ceq[OF c] .
    show "Test L [f] obj = compare L f actual" using tb[OF ceq[OF c]] .
  next
    assume c: "Comparator f = ''neq''"
    show "compare L f actual = Returns (\<not> ?same, None)" using cneq[OF c] .
    show "Test L [f] obj = compare L f actual" using tb[OF cneq[OF c]] .
  next
    assume d: "TypeOf actual \<noteq> TypeOf (Value f)" and c: "Comparator f = ''eq''"
    show "compare L f actual = Returns (False, None)" using ceq[OF c] diff[OF d] by simp
  next
    assume d: "TypeOf actual \<noteq> TypeOf (Value f)" and c: "Comparator f = ''neq''"
    show "compare L f actual = Returns (True, None)" using cneq[OF c] diff[OF d] by simp
  qed
qed

theorem eq_neq_comparable_witness:
  "pluck [(''a'', VMap [(''b'', VMap [(''c'', VInt64 5)])])] ''a.b.c'' = VInt64 5 \<and>
   Test example_lib [\<lparr>Comparator = ''eq'', Path = ''a.b.c'', Value = VInt64 5\<rparr>]
     [(''a'', VMap [(''b'', VMap [(''c'', VInt64 5)])])] = Returns (True, None) \<and>
   Test example_lib [\<lparr>Comparator = ''eq'', Path = ''a.b.c'', Value = VString ''5''\<rparr>]
     [(''a'', VMap [(''b'', VMap [(''c'', VInt64 5)])])] = Returns (False, None) \<and>
   Test example_lib [\<lparr>Comparator = ''neq'', Path = ''a.b.c'', Value = VString ''5''\<rparr>]
     [(''a'', VMap [(''b'', VMap [(''c'', VInt64 5)])])] = Returns (True, None)"
proof -
  let ?obj = "[(''a'', VMap [(''b'', VMap [(''c'', VInt64 5)])])]"
  let ?f = "\<lparr>Comparator = ''eq'', Path = ''a.b.c'', Value = VInt64 5\<rparr>"
  let ?g = "\<lparr>Comparator = ''eq'', Path = ''a.b.c'', Value = VString ''5''\<rparr>"
  let ?h = "\<lparr>Comparator = ''neq'', Path = ''a.b.c'', Value = VString ''5''\<rparr>"
  have p: "pluck ?obj ''a.b.c'' = VInt64 5"
    by (simp add: pluck_def map_index_def pluck_loop.simps)
  have u: "\<not> unsupported (VInt64 5)" "\<not> unsupported (VString ''5'')"
    by (simp_all add: unsupported_def)
  have "Test example_lib [?f] ?obj = Returns (True, None)"
    using eq_neq_comparable[of ?obj ?f "VInt64 5" example_lib] p u by simp
  moreover have "Test example_lib [?g] ?obj = Returns (False, None)"
    using eq_neq_comparable[of ?obj ?g "VInt64 5" example_lib] p u by simp
  moreover have "Test example_lib [?h] ?obj = Returns (True, None)"
    using eq_neq_comparable[of ?obj ?h "VInt64 5" example_lib] p u by simp
  ultimately show ?thesis using p by simp
qed

subsection \<open>Path resolution\<close>

text \<open>
  Claim C9: \<^verbatim>\<open>pluck\<close> splits the path at the dots and walks the segments in order, as
  \<open>resolve\<close> does: at every segment but the last the key must be there and hold a
  nested mapping, else the result is absent; the value at the last segment is
  returned as it is, whatever its kind, and absent otherwise. Absent is the nil
  interface. \<^verbatim>\<open>pluck\<close> is a function of the document and the path and returns a value
  only: it has no document to give back, as the source has no write to it.
\<close>

theorem pluck_walks_segments:
  "pluck obj path =
     (case resolve obj (Split path (CHR ''.'')) of None \<Rightarrow> VNil | Some v \<Rightarrow> v)"
  by (rule pluck_resolve)

theorem pluck_walks_segments_witness:
  "Split ''a.b.c'' (CHR ''.'') = [''a'', ''b'', ''c''] \<and>
   pluck [(''a'', VMap [(''b'', VMap [(''c'', VInt64 5)])])] ''a.b.c'' = VInt64 5 \<and>
   pluck [(''a'', VMap [(''b'', VMap [(''c'', VInt64 5)])])] ''a.b'' = VMap [(''c'', VInt64 5)] \<and>
   pluck [(''a'', VMap [(''b'', VMap [(''c'', VInt64 5)])])] ''a.x.c'' = VNil \<and>
   pluck [(''a'', VMap [(''b'', VSlice [VInt64 5])])] ''a.b.c'' = VNil"
proof -
  have s: "Split ''a.b.c'' (CHR ''.'') = [''a'', ''b'', ''c'']"
    "Split ''a.b'' (CHR ''.'') = [''a'', ''b'']"
    "Split ''a.x.c'' (CHR ''.'') = [''a'', ''x'', ''c'']"
    by simp_all
  show ?thesis
    using pluck_walks_segments[of "[(''a'', VMap [(''b'', VMap [(''c'', VInt64 5)])])]" "''a.b.c''"]
      pluck_walks_segments[of "[(''a'', VMap [(''b'', VMap [(''c'', VInt64 5)])])]" "''a.b''"]
      pluck_walks_segments[of "[(''a'', VMap [(''b'', VMap [(''c'', VInt64 5)])])]" "''a.x.c''"]
      pluck_walks_segments[of "[(''a'', VMap [(''b'', VSlice [VInt64 5])])]" "''a.b.c''"]
    by (simp add: s)
qed

subsection \<open>Stored nil\<close>

text \<open>
  Claim C10: when the keys along the path are there and the value stored at the path,
  or at a step before its end, is nil, \<^verbatim>\<open>pluck\<close> returns absent, and the rule is
  treated as for a missing key: \<^verbatim>\<open>exists\<close> yields false, \<^verbatim>\<open>nexists\<close> yields true, and
  every other comparator the missing-property error.
\<close>

theorem nil_value_is_absent:
  assumes "nil_on_path obj (Split (Path f) (CHR ''.''))"
  shows "pluck obj (Path f) = VNil \<and>
         Test L (f # rest) obj =
           (if Comparator f = ''exists'' then Returns (False, None)
            else if Comparator f = ''nexists'' then Returns (True, None)
            else Returns (False, Some (MissingProperty (Path f))))"
proof -
  have p: "pluck obj (Path f) = VNil" using assms by (rule nil_on_path_pluck)
  then show ?thesis by (simp add: Test_body_absent)
qed

theorem nil_value_is_absent_witness:
  "nil_on_path [(''a'', VMap [(''b'', VNil)])] (Split ''a.b'' (CHR ''.'')) \<and>
   nil_on_path [(''a'', VMap [(''b'', VNil)])] (Split ''a.b.c'' (CHR ''.'')) \<and>
   pluck [(''a'', VMap [(''b'', VNil)])] ''a.b'' = VNil \<and>
   Test example_lib [\<lparr>Comparator = ''nexists'', Path = ''a.b'', Value = VBool True\<rparr>]
     [(''a'', VMap [(''b'', VNil)])] = Returns (True, None) \<and>
   Test example_lib [\<lparr>Comparator = ''exists'', Path = ''a.b.c'', Value = VBool True\<rparr>]
     [(''a'', VMap [(''b'', VNil)])] = Returns (False, None) \<and>
   Test example_lib [\<lparr>Comparator = ''eq'', Path = ''a.b'', Value = VInt64 1\<rparr>]
     [(''a'', VMap [(''b'', VNil)])] = Returns (False, Some (MissingProperty ''a.b''))"
proof -
  let ?obj = "[(''a'', VMap [(''b'', VNil)])]"
  have h1: "nil_on_path ?obj (Split ''a.b'' (CHR ''.''))" by simp
  have h2: "nil_on_path ?obj (Split ''a.b.c'' (CHR ''.''))" by simp
  show ?thesis
    using nil_value_is_absent[of ?obj "\<lparr>Comparator = ''nexists'', Path = ''a.b'', Value = VBool True\<rparr>" example_lib "[]"]
      nil_value_is_absent[of ?obj "\<lparr>Comparator = ''exists'', Path = ''a.b.c'', Value = VBool True\<rparr>" example_lib "[]"]
      nil_value_is_absent[of ?obj "\<lparr>Comparator = ''eq'', Path = ''a.b'', Value = VInt64 1\<rparr>" example_lib "[]"]
      h1 h2
    by simp
qed

end
